theory Spec2Isabelle
  imports Main "HOL-Library.Sublist"
begin

section \<open>The bootstrap of the embedded PostgreSQL backend (fuzzer_initialize.c)\<close>

text \<open>
  The file under verification holds two functions: the exit hook \<^verbatim>\<open>fuzzer_exit\<close> and
  the bootstrap \<^verbatim>\<open>FuzzerInitialize\<close>, a straight line of calls into libc and into the
  database engine. The model keeps the globals the two functions read and write in a
  record, logs every completed call in program order, and lets an environment decide
  which engine calls return and which terminate the process.
\<close>

subsection \<open>Strings built on the stack\<close>

text \<open>
  \<^verbatim>\<open>snprintf(buf, n, ...)\<close> stores at most \<open>n - 1\<close> characters of the formatted text and
  a terminating zero byte; the return value is ignored by the source, so a text that
  does not fit is cut without notice. The format \<^verbatim>\<open>%s\<close> is concatenation.
\<close>

definition snprintf :: "nat \<Rightarrow> string \<Rightarrow> string" where
  "snprintf n str = take (n - 1) str"

definition arg_path :: "string \<Rightarrow> string" where
  "arg_path dbname = snprintf 50 (''/tmp/'' @ dbname @ ''/data'')"

definition path_to_db :: "string \<Rightarrow> string" where
  \<open>path_to_db dbname = snprintf 50 (''-D"/tmp/'' @ dbname @ ''/data"'')\<close>

definition untar :: "string \<Rightarrow> string" where
  "untar dbname = snprintf 100
     (''rm -rf /tmp/'' @ dbname @ '' && mkdir /tmp/'' @ dbname @
      '' && tar -xvf data.tar.gz -C /tmp/'' @ dbname)"

definition argv0 :: string where
  "argv0 = ''tmp_install/usr/local/pgsql/bin/postgres''"

definition argv :: "string \<Rightarrow> string option list" where
  \<open>argv dbname = [Some argv0, Some (path_to_db dbname), Some ''-F'',
                  Some ''-k"/tmp/pg_dbfuzz"'', None]\<close>

subsection \<open>The file system seen by the shell command\<close>

text \<open>
  Modelled from the spec: the effect of the command on the file system (missing: the
  shell and the utilities \<^verbatim>\<open>rm\<close>, \<^verbatim>\<open>mkdir\<close> and \<^verbatim>\<open>tar\<close>, which are not part of this
  repository). \<^verbatim>\<open>system(untar)\<close> hands the command text to the shell; the source only
  builds the text. The specification describes the effect as: recursively delete any
  pre-existing directory at the target path, recreate it, extract the archive found
  relative to the working directory into it. That effect is modelled on a file system
  that maps absolute paths to nodes, for command texts made of words separated by
  single blanks and joined by \<^verbatim>\<open>&&\<close> (the shape the format string produces for
  identifiers free of blanks and shell metacharacters):
  \<^verbatim>\<open>rm -rf p\<close> removes \<open>p\<close> and everything below it and succeeds,
  \<^verbatim>\<open>mkdir p\<close> fails when \<open>p\<close> exists or its parent is not a directory,
  \<^verbatim>\<open>tar -xvf a -C p\<close> fails when \<open>a\<close> is not a readable archive or \<open>p\<close> is not a
  directory and otherwise writes every member of the archive below \<open>p\<close>,
  and \<^verbatim>\<open>&&\<close> runs the next command only when the previous one succeeded.
\<close>

datatype node = Dir | File string

record filesys =
  files :: "string \<Rightarrow> node option"
  cwd :: string

type_synonym archive_reader = "string \<Rightarrow> (string \<times> node) list option"

definition add_char :: "char \<Rightarrow> string list \<Rightarrow> string list" where
  "add_char c ws =
     (if c = CHR '' '' then [] # ws
      else (case ws of [] \<Rightarrow> [[c]] | w # r \<Rightarrow> (c # w) # r))"

definition tokens :: "string \<Rightarrow> string list" where
  "tokens s = filter (\<lambda>w. w \<noteq> []) (foldr add_char s [[]])"

fun and_list :: "string list \<Rightarrow> string list list" where
  "and_list [] = [[]]"
| "and_list (w # ws) =
     (if w = ''&&'' then [] # and_list ws
      else (case and_list ws of [] \<Rightarrow> [[w]] | c # cs \<Rightarrow> (w # c) # cs))"

definition dirname :: "string \<Rightarrow> string" where
  "dirname p = rev (tl (dropWhile (\<lambda>c. c \<noteq> CHR ''/'') (rev p)))"

definition resolve :: "filesys \<Rightarrow> string \<Rightarrow> string" where
  "resolve fs p = (case p of [] \<Rightarrow> cwd fs
                   | c # _ \<Rightarrow> if c = CHR ''/'' then p else cwd fs @ ''/'' @ p)"

definition wipe :: "string \<Rightarrow> (string \<Rightarrow> node option) \<Rightarrow> (string \<Rightarrow> node option)" where
  "wipe p f = (\<lambda>q. if q = p \<or> prefix (p @ ''/'') q then None else f q)"

definition rm_rf :: "string \<Rightarrow> filesys \<Rightarrow> bool \<times> filesys" where
  "rm_rf p fs = (True, fs\<lparr>files := wipe (resolve fs p) (files fs)\<rparr>)"

definition mkdir :: "string \<Rightarrow> filesys \<Rightarrow> bool \<times> filesys" where
  "mkdir p fs =
     (if files fs (resolve fs p) \<noteq> None then (False, fs)
      else if files fs (dirname (resolve fs p)) \<noteq> Some Dir then (False, fs)
      else (True, fs\<lparr>files := (files fs)(resolve fs p \<mapsto> Dir)\<rparr>))"

definition unpack :: "(string \<times> node) list \<Rightarrow> string \<Rightarrow> (string \<Rightarrow> node option)
    \<Rightarrow> (string \<Rightarrow> node option)" where
  "unpack members p f = fold (\<lambda>(rel, n) g. g(p @ ''/'' @ rel \<mapsto> n)) members f"

definition tar_xvf :: "archive_reader \<Rightarrow> string \<Rightarrow> string \<Rightarrow> filesys \<Rightarrow> bool \<times> filesys" where
  "tar_xvf reader a p fs =
     (case files fs (resolve fs a) of
        Some (File bytes) \<Rightarrow>
          (case reader bytes of
             Some members \<Rightarrow>
               if files fs (resolve fs p) = Some Dir
               then (True, fs\<lparr>files := unpack members (resolve fs p) (files fs)\<rparr>)
               else (False, fs)
           | None \<Rightarrow> (False, fs))
      | _ \<Rightarrow> (False, fs))"

definition simple_command :: "archive_reader \<Rightarrow> string list \<Rightarrow> filesys \<Rightarrow> bool \<times> filesys" where
  "simple_command reader ws fs =
     (case ws of
        [c, f, p] \<Rightarrow> if c = ''rm'' \<and> f = ''-rf'' then rm_rf p fs else (False, fs)
      | [c, p] \<Rightarrow> if c = ''mkdir'' then mkdir p fs else (False, fs)
      | [c, f, a, d, p] \<Rightarrow>
          if c = ''tar'' \<and> f = ''-xvf'' \<and> d = ''-C'' then tar_xvf reader a p fs
          else (False, fs)
      | _ \<Rightarrow> (False, fs))"

fun and_chain :: "archive_reader \<Rightarrow> string list list \<Rightarrow> filesys \<Rightarrow> bool \<times> filesys" where
  "and_chain reader [] fs = (True, fs)"
| "and_chain reader (c # cs) fs =
     (case simple_command reader c fs of
        (True, fs') \<Rightarrow> and_chain reader cs fs'
      | (False, fs') \<Rightarrow> (False, fs'))"

definition sh :: "archive_reader \<Rightarrow> string \<Rightarrow> filesys \<Rightarrow> bool \<times> filesys" where
  "sh reader cmd fs = and_chain reader (and_list (tokens cmd)) fs"

text \<open>The Dataset Provisioner: the command the bootstrap passes to \<^verbatim>\<open>system\<close>.\<close>

definition provision :: "archive_reader \<Rightarrow> string \<Rightarrow> filesys \<Rightarrow> bool \<times> filesys" where
  "provision reader dbname fs = sh reader (untar dbname) fs"

text \<open>
  Identifiers that the shell reads as one plain word and that name a directory directly
  below \<^verbatim>\<open>/tmp\<close>: not empty, not \<^verbatim>\<open>.\<close> or \<^verbatim>\<open>..\<close>, and free of blanks, of the slash and
  of the characters the shell treats specially. Every other byte is allowed.
\<close>

definition shell_special :: string where
  \<open>shell_special =
     [CHR '' '', CHR 0x09, CHR 0x0A, CHR ''/'', CHR ''|'', CHR ''&'', CHR '';'', CHR ''<'',
      CHR ''>'', CHR ''('', CHR '')'', CHR ''$'', CHR 0x60, CHR 0x5C, CHR 0x22, CHR 0x27,
      CHR ''*'', CHR ''?'', CHR ''['', CHR '']'', CHR ''#'', CHR ''~'', CHR ''='', CHR ''%'',
      CHR ''!'', CHR ''{'', CHR ''}'']\<close>

definition safe_identifier :: "string \<Rightarrow> bool" where
  "safe_identifier d \<longleftrightarrow>
     d \<noteq> [] \<and> d \<noteq> ''.'' \<and> d \<noteq> ''..'' \<and> list_all (\<lambda>c. c \<notin> set shell_special) d"

subsection \<open>Process state\<close>

type_synonym addr = nat

text \<open>A \<^verbatim>\<open>MemoryContext\<close> is a pointer: \<open>None\<close> is \<^verbatim>\<open>NULL\<close>, \<open>Some i\<close> the \<open>i\<close>-th arena created.\<close>

type_synonym MemoryContext = "nat option"

type_synonym Oid = nat

definition InvalidOid :: Oid where
  "InvalidOid = 0"

datatype ProcessingMode = BootstrapProcessing | InitProcessing | NormalProcessing

datatype GucContext = PGC_POSTMASTER

datatype CommandDest = DestNone | DestDebug | DestRemote

datatype AllocSetSizes = ALLOCSET_DEFAULT_SIZES

datatype hook = Fuzzer_exit

record MemoryContextData =
  name :: string
  parent :: MemoryContext
  chunks :: "nat list"

text \<open>The \<open>data\<close> pointer of a string buffer names the arena and the chunk it points to.\<close>

record StringInfoData =
  data :: "(nat \<times> nat) option"
  len :: int
  maxlen :: int
  cursor :: int

datatype call =
    E_system string
  | E_get_progname string
  | E_MemoryContextInit
  | E_get_user_name_or_exit "string option"
  | E_strdup string
  | E_InitStandaloneProcess string
  | E_SetProcessingMode ProcessingMode
  | E_InitializeGUCOptions
  | E_process_postgres_switches int "string option list" GucContext "string option"
  | E_SelectConfigFiles string "string option"
  | E_checkDataDir
  | E_ChangeToDataDir
  | E_CreateDataDirLockFile bool
  | E_LocalProcessControlFile bool
  | E_InitializeMaxBackends
  | E_BaseInit
  | E_InitProcess
  | E_PG_SETMASK_UnBlockSig
  | E_InitPostgres string Oid "addr option" Oid "string option" bool
  | E_BeginReportingGUCOptions
  | E_process_session_preload_libraries
  | E_AllocSetContextCreate MemoryContext string AllocSetSizes
  | E_MemoryContextSwitchTo MemoryContext
  | E_initStringInfo
  | E_GetCurrentTimestamp
  | E_atexit hook
  | E_pfree addr

text \<open>
  The globals of the file (\<open>progname\<close>, \<open>row_description_context\<close>,
  \<open>row_description_buf\<close>, \<open>username\<close>), the engine globals it assigns or passes on, the
  table of arenas, the file system, the registered exit hooks (latest first, the order
  in which \<^verbatim>\<open>exit\<close> runs them) and the log of completed calls.
\<close>

record state =
  progname :: "string option"
  row_description_context :: MemoryContext
  row_description_buf :: StringInfoData
  username :: "addr option"
  TopMemoryContext :: MemoryContext
  CurrentMemoryContext :: MemoryContext
  MessageContext :: MemoryContext
  Mode :: ProcessingMode
  PgStartTime :: int
  whereToSendOutput :: CommandDest
  Log_destination :: int
  contexts :: "MemoryContextData list"
  filesystem :: filesys
  atexit_handlers :: "hook list"
  trace :: "call list"

text \<open>
  What the process cannot decide by itself: whether an engine call returns
  (\<open>completes\<close>) or ends the process through the engine's fatal-error path, the
  short program name, the operating-system user, the block \<^verbatim>\<open>strdup\<close> returns
  (\<open>None\<close> when memory is exhausted), the archive format and the clock.
\<close>

record env =
  completes :: "call \<Rightarrow> bool"
  get_progname_result :: "string \<Rightarrow> string"
  get_user_name_result :: string
  strdup_result :: "addr option"
  archive_members :: archive_reader
  clock :: int

subsection \<open>Calls\<close>

text \<open>
  A statement maps a state to \<open>Inr\<close> the next state, or to \<open>Inl\<close> the state in which
  the process terminated. \<open>logged\<close> records a completed call, \<open>nofail\<close> is a call
  that always returns (a libc function whose result the source ignores, a macro or an
  inline assignment), \<open>engine\<close> one that the environment may turn into process
  termination.
\<close>

type_synonym stmt = "state \<Rightarrow> state + state"

definition logged :: "call \<Rightarrow> state \<Rightarrow> state" where
  "logged c s = s\<lparr>trace := trace s @ [c]\<rparr>"

definition engine :: "env \<Rightarrow> call \<Rightarrow> (state \<Rightarrow> state) \<Rightarrow> stmt" where
  "engine e c effect s = (if completes e c then Inr (effect (logged c s)) else Inl s)"

definition nofail :: "call \<Rightarrow> (state \<Rightarrow> state) \<Rightarrow> stmt" where
  "nofail c effect s = Inr (effect (logged c s))"

primrec exec :: "stmt list \<Rightarrow> stmt" where
  "exec [] s = Inr s"
| "exec (f # fs) s = (case f s of Inl t \<Rightarrow> Inl t | Inr t \<Rightarrow> exec fs t)"

text \<open>
  The states an execution passes through, the starting state first and the state in
  which it returned or terminated last.
\<close>

primrec history :: "stmt list \<Rightarrow> state \<Rightarrow> state list" where
  "history [] s = [s]"
| "history (f # fs) s = s # (case f s of Inl t \<Rightarrow> [t] | Inr t \<Rightarrow> history fs t)"

text \<open>
  The arena interface and the mode macro belong to the engine, which this repository
  calls but does not contain; the next definitions give them the meaning the
  specification describes.
\<close>

text \<open>Modelled from the spec: a newly created arena (missing: the engine's arena record); it
  has a name and a parent and holds no allocation yet.\<close>

definition new_context :: "string \<Rightarrow> MemoryContext \<Rightarrow> MemoryContextData" where
  "new_context n p = \<lparr>name = n, parent = p, chunks = []\<rparr>"

text \<open>Modelled from the spec: \<^verbatim>\<open>MemoryContextInit\<close> (missing: engine function) initializes the
  top-level memory-arena subsystem: it creates the top-level arena and makes it current.\<close>

definition MemoryContextInit :: "state \<Rightarrow> state" where
  "MemoryContextInit s =
     s\<lparr>contexts := contexts s @ [new_context ''TopMemoryContext'' None],
       TopMemoryContext := Some (length (contexts s)),
       CurrentMemoryContext := Some (length (contexts s))\<rparr>"

text \<open>Modelled from the spec: \<^verbatim>\<open>AllocSetContextCreate\<close> (missing: engine function) creates a
  long-lived arena as a child of the given parent and returns it.\<close>

definition AllocSetContextCreate ::
    "MemoryContext \<Rightarrow> string \<Rightarrow> AllocSetSizes \<Rightarrow> state \<Rightarrow> MemoryContext \<times> state" where
  "AllocSetContextCreate p n sizes s =
     (Some (length (contexts s)), s\<lparr>contexts := contexts s @ [new_context n p]\<rparr>)"

text \<open>Modelled from the spec: \<^verbatim>\<open>MemoryContextSwitchTo\<close> (missing: engine inline function)
  selects the current allocation arena, a global selection.\<close>

definition MemoryContextSwitchTo :: "MemoryContext \<Rightarrow> state \<Rightarrow> state" where
  "MemoryContextSwitchTo c s = s\<lparr>CurrentMemoryContext := c\<rparr>"

text \<open>Modelled from the spec: \<^verbatim>\<open>SetProcessingMode\<close> (missing: engine macro) sets the
  processing mode.\<close>

definition SetProcessingMode :: "ProcessingMode \<Rightarrow> state \<Rightarrow> state" where
  "SetProcessingMode m s = s\<lparr>Mode := m\<rparr>"

text \<open>Modelled from the spec: an allocation (missing: the engine's \<^verbatim>\<open>palloc\<close>) takes a chunk
  of the requested size from the current arena; \<open>None\<close> when no valid arena is current.\<close>

definition palloc :: "nat \<Rightarrow> state \<Rightarrow> ((nat \<times> nat) \<times> state) option" where
  "palloc n s =
     (case CurrentMemoryContext s of
        None \<Rightarrow> None
      | Some c \<Rightarrow>
          if c < length (contexts s)
          then Some ((c, length (chunks (contexts s ! c))),
                     s\<lparr>contexts := (contexts s)
                          [c := (contexts s ! c)\<lparr>chunks := chunks (contexts s ! c) @ [n]\<rparr>]\<rparr>)
          else None)"

text \<open>Modelled from the spec: \<^verbatim>\<open>initStringInfo\<close> (missing: engine function), applied to
  \<open>row_description_buf\<close>, gives the buffer a pre-sized allocation (1024 bytes) in the
  current arena and zero accumulated length. Allocating with no valid current arena ends
  the process, as does an allocation the environment refuses.\<close>

definition initStringInfo_row_description_buf :: "env \<Rightarrow> stmt" where
  "initStringInfo_row_description_buf e s =
     (if completes e E_initStringInfo
      then (case palloc 1024 (logged E_initStringInfo s) of
              None \<Rightarrow> Inl s
            | Some (p, s') \<Rightarrow>
                Inr (s'\<lparr>row_description_buf :=
                          \<lparr>data = Some p, len = 0, maxlen = 1024, cursor = 0\<rparr>\<rparr>))
      else Inl s)"

subsection \<open>The exit hook\<close>

definition pfree :: "addr \<Rightarrow> state \<Rightarrow> state" where
  "pfree p s = logged (E_pfree p) s"

definition fuzzer_exit :: "state \<Rightarrow> state" where
  "fuzzer_exit s = (case username s of None \<Rightarrow> s | Some p \<Rightarrow> pfree p s)"

definition run_hook :: "hook \<Rightarrow> state \<Rightarrow> state" where
  "run_hook h s = (case h of Fuzzer_exit \<Rightarrow> fuzzer_exit s)"

text \<open>Process termination runs the registered hooks, the latest registered first.\<close>

definition process_exit :: "state \<Rightarrow> state" where
  "process_exit s = fold run_hook (atexit_handlers s) s"

text \<open>How often the block at \<open>p\<close> has been handed to \<^verbatim>\<open>pfree\<close>.\<close>

definition releases :: "addr \<Rightarrow> state \<Rightarrow> nat" where
  "releases p s = count_list (trace s) (E_pfree p)"

subsection \<open>The bootstrap\<close>

text \<open>The body of \<^verbatim>\<open>FuzzerInitialize\<close>, one entry per call or assignment, in source order.\<close>

definition FuzzerInitialize_body :: "env \<Rightarrow> string \<Rightarrow> stmt list" where
  \<open>FuzzerInitialize_body e dbname =
   [ \<comment> \<open>system(untar);\<close>
     nofail (E_system (untar dbname))
       (\<lambda>s. s\<lparr>filesystem := snd (sh (archive_members e) (untar dbname) (filesystem s))\<rparr>),
     \<comment> \<open>progname = get_progname(argv[0]);\<close>
     engine e (E_get_progname argv0)
       (\<lambda>s. s\<lparr>progname := Some (get_progname_result e argv0)\<rparr>),
     \<comment> \<open>MemoryContextInit();\<close>
     engine e E_MemoryContextInit MemoryContextInit,
     \<comment> \<open>username = strdup(get_user_name_or_exit(progname));\<close>
     (\<lambda>s. engine e (E_get_user_name_or_exit (progname s)) id s),
     nofail (E_strdup (get_user_name_result e)) (\<lambda>s. s\<lparr>username := strdup_result e\<rparr>),
     \<comment> \<open>InitStandaloneProcess(argv[0]);\<close>
     engine e (E_InitStandaloneProcess argv0) id,
     \<comment> \<open>SetProcessingMode(InitProcessing);\<close>
     nofail (E_SetProcessingMode InitProcessing) (SetProcessingMode InitProcessing),
     \<comment> \<open>InitializeGUCOptions();\<close>
     engine e E_InitializeGUCOptions id,
     \<comment> \<open>process_postgres_switches(4, argv, PGC_POSTMASTER, NULL);\<close>
     engine e (E_process_postgres_switches 4 (argv dbname) PGC_POSTMASTER None) id,
     \<comment> \<open>SelectConfigFiles(arg_path, progname);\<close>
     (\<lambda>s. engine e (E_SelectConfigFiles (arg_path dbname) (progname s)) id s),
     \<comment> \<open>checkDataDir(); ChangeToDataDir(); CreateDataDirLockFile(false);\<close>
     engine e E_checkDataDir id,
     engine e E_ChangeToDataDir id,
     engine e (E_CreateDataDirLockFile False) id,
     \<comment> \<open>LocalProcessControlFile(false); InitializeMaxBackends();\<close>
     engine e (E_LocalProcessControlFile False) id,
     engine e E_InitializeMaxBackends id,
     \<comment> \<open>BaseInit(); InitProcess(); PG_SETMASK(&UnBlockSig);\<close>
     engine e E_BaseInit id,
     engine e E_InitProcess id,
     nofail E_PG_SETMASK_UnBlockSig id,
     \<comment> \<open>InitPostgres("dbfuzz", InvalidOid, username, InvalidOid, NULL, false);\<close>
     (\<lambda>s. engine e (E_InitPostgres ''dbfuzz'' InvalidOid (username s) InvalidOid None False) id s),
     \<comment> \<open>SetProcessingMode(NormalProcessing);\<close>
     nofail (E_SetProcessingMode NormalProcessing) (SetProcessingMode NormalProcessing),
     \<comment> \<open>BeginReportingGUCOptions(); process_session_preload_libraries();\<close>
     engine e E_BeginReportingGUCOptions id,
     engine e E_process_session_preload_libraries id,
     \<comment> \<open>MessageContext = AllocSetContextCreate(TopMemoryContext, "MessageContext", ...);\<close>
     (\<lambda>s. engine e
        (E_AllocSetContextCreate (TopMemoryContext s) ''MessageContext'' ALLOCSET_DEFAULT_SIZES)
        (\<lambda>s. case AllocSetContextCreate (TopMemoryContext s) ''MessageContext''
                     ALLOCSET_DEFAULT_SIZES s of
                (c, s') \<Rightarrow> s'\<lparr>MessageContext := c\<rparr>) s),
     \<comment> \<open>row_description_context = AllocSetContextCreate(TopMemoryContext, "RowDescriptionContext", ...);\<close>
     (\<lambda>s. engine e
        (E_AllocSetContextCreate (TopMemoryContext s) ''RowDescriptionContext''
           ALLOCSET_DEFAULT_SIZES)
        (\<lambda>s. case AllocSetContextCreate (TopMemoryContext s) ''RowDescriptionContext''
                     ALLOCSET_DEFAULT_SIZES s of
                (c, s') \<Rightarrow> s'\<lparr>row_description_context := c\<rparr>) s),
     \<comment> \<open>MemoryContextSwitchTo(row_description_context);\<close>
     (\<lambda>s. nofail (E_MemoryContextSwitchTo (row_description_context s))
              (MemoryContextSwitchTo (row_description_context s)) s),
     \<comment> \<open>initStringInfo(&row_description_buf);\<close>
     initStringInfo_row_description_buf e,
     \<comment> \<open>MemoryContextSwitchTo(TopMemoryContext);\<close>
     (\<lambda>s. nofail (E_MemoryContextSwitchTo (TopMemoryContext s))
              (MemoryContextSwitchTo (TopMemoryContext s)) s),
     \<comment> \<open>PgStartTime = GetCurrentTimestamp();\<close>
     nofail E_GetCurrentTimestamp (\<lambda>s. s\<lparr>PgStartTime := clock e\<rparr>),
     \<comment> \<open>whereToSendOutput = DestNone; Log_destination = 0;\<close>
     (\<lambda>s. Inr (s\<lparr>whereToSendOutput := DestNone\<rparr>)),
     (\<lambda>s. Inr (s\<lparr>Log_destination := 0\<rparr>)),
     \<comment> \<open>atexit(fuzzer_exit);\<close>
     nofail (E_atexit Fuzzer_exit) (\<lambda>s. s\<lparr>atexit_handlers := Fuzzer_exit # atexit_handlers s\<rparr>)
   ]\<close>

text \<open>
  \<^verbatim>\<open>int FuzzerInitialize(char *dbname)\<close>: \<open>Inr (r, t)\<close> when the function returns \<open>r\<close>
  in state \<open>t\<close>, \<open>Inl t\<close> when the process terminated in state \<open>t\<close> before the return.
\<close>

definition FuzzerInitialize :: "env \<Rightarrow> string \<Rightarrow> state \<Rightarrow> state + (int \<times> state)" where
  "FuzzerInitialize e dbname s =
     (case exec (FuzzerInitialize_body e dbname) s of
        Inl t \<Rightarrow> Inl t
      | Inr t \<Rightarrow> Inr (0, t))"

text \<open>The calls completed since the state \<open>s\<close>, read off a later state \<open>t\<close>.\<close>

definition since :: "state \<Rightarrow> state \<Rightarrow> call list" where
  "since s t = drop (length (trace s)) (trace t)"

text \<open>The place of the first occurrence of a call in a log (the length of the log when absent).\<close>

definition position :: "call \<Rightarrow> call list \<Rightarrow> nat" where
  "position c cs = length (takeWhile (\<lambda>x. x \<noteq> c) cs)"

subsection \<open>The stages of the bootstrap\<close>





text \<open>The Data Directory Binder, lines 77 to 81.\<close>

definition data_directory_binder :: "call list" where
  "data_directory_binder =
     [E_checkDataDir, E_ChangeToDataDir, E_CreateDataDirLockFile False,
      E_LocalProcessControlFile False, E_InitializeMaxBackends]"

text \<open>Backend Attach, lines 83 to 86.\<close>

definition backend_attach :: "addr option \<Rightarrow> call list" where
  "backend_attach u =
     [E_BaseInit, E_InitProcess, E_PG_SETMASK_UnBlockSig,
      E_InitPostgres ''dbfuzz'' InvalidOid u InvalidOid None False]"

subsection \<open>Example runs\<close>

text \<open>
  A fresh process image: every pointer \<^verbatim>\<open>NULL\<close>, no arena, no exit hook, an empty
  log, and a file system with \<^verbatim>\<open>/tmp\<close> and a working directory that holds the
  snapshot archive.
\<close>

definition example_files :: "string \<Rightarrow> node option" where
  "example_files p =
     (if p = ''/tmp'' \<or> p = ''/work'' then Some Dir
      else if p = ''/work/data.tar.gz'' then Some (File ''snapshot'')
      else None)"

definition example_reader :: archive_reader where
  "example_reader bytes =
     (if bytes = ''snapshot''
      then Some [(''data'', Dir), (''data/PG_VERSION'', File ''12'')]
      else None)"

definition example_fs :: filesys where
  "example_fs = \<lparr>files = example_files, cwd = ''/work''\<rparr>"

definition start_state :: state where
  "start_state =
     \<lparr>progname = None, row_description_context = None,
      row_description_buf = \<lparr>data = None, len = 0, maxlen = 0, cursor = 0\<rparr>,
      username = None, TopMemoryContext = None, CurrentMemoryContext = None,
      MessageContext = None, Mode = InitProcessing, PgStartTime = 0,
      whereToSendOutput = DestDebug, Log_destination = 1, contexts = [],
      filesystem = example_fs,
      atexit_handlers = [], trace = []\<rparr>"

text \<open>An environment in which every engine call returns.\<close>

definition all_complete :: env where
  "all_complete =
     \<lparr>completes = (\<lambda>c. True),
      get_progname_result = (\<lambda>p. rev (takeWhile (\<lambda>c. c \<noteq> CHR ''/'') (rev p))),
      get_user_name_result = ''fuzz'',
      strdup_result = Some 7,
      archive_members = example_reader,
      clock = 1000\<rparr>"

text \<open>An environment in which the data directory is locked by another process.\<close>

definition lock_held :: env where
  "lock_held = all_complete\<lparr>completes := (\<lambda>c. c \<noteq> E_CreateDataDirLockFile False)\<rparr>"

text \<open>The states in which the two example runs end.\<close>

definition booted :: state where
  "booted = (case FuzzerInitialize all_complete ''fz1'' start_state of
               Inl t \<Rightarrow> t | Inr (r, t) \<Rightarrow> t)"

definition crashed :: state where
  "crashed = (case FuzzerInitialize lock_held ''fz1'' start_state of
                Inl t \<Rightarrow> t | Inr (r, t) \<Rightarrow> t)"

definition long_a :: string where
  "long_a = ''aaaaaaaaaaaaaaaaaaaaaaaaaaaaaaaaaaaaaaaaaaaax''"

definition long_b :: string where
  "long_b = ''aaaaaaaaaaaaaaaaaaaaaaaaaaaaaaaaaaaaaaaaaaaay''"

section \<open>Properties\<close>

subsection \<open>Unfolding the statements\<close>

lemmas stmt_defs = engine_def nofail_def logged_def MemoryContextInit_def
  AllocSetContextCreate_def MemoryContextSwitchTo_def SetProcessingMode_def
  initStringInfo_row_description_buf_def palloc_def new_context_def

lemmas run_defs = FuzzerInitialize_def FuzzerInitialize_body_def stmt_defs

lemmas example_defs = all_complete_def lock_held_def start_state_def example_fs_def

lemmas trace_defs = since_def position_def

text \<open>The state in which an execution ends is the last of the states it passed through.\<close>

lemma exec_last_history:
  "exec fs s = Inr t \<or> exec fs s = Inl t \<Longrightarrow> last (history fs s) = t"
proof (induction fs arbitrary: s)
  case Nil
  then show ?case by simp
next
  case (Cons f fs)
  show ?case
  proof (cases "f s")
    case (Inl u)
    with Cons.prems show ?thesis by simp
  next
    case (Inr u)
    with Cons.prems have "exec fs u = Inr t \<or> exec fs u = Inl t"
      by simp
    then have "last (history fs u) = t"
      by (rule Cons.IH)
    moreover have "history fs u \<noteq> []"
      by (cases fs) simp_all
    ultimately show ?thesis
      using Inr by simp
  qed
qed

lemma FuzzerInitialize_last_history:
  assumes "FuzzerInitialize e d s = Inr (r, t) \<or> FuzzerInitialize e d s = Inl t"
  shows "last (history (FuzzerInitialize_body e d) s) = t"
proof -
  from assms have "exec (FuzzerInitialize_body e d) s = Inr t \<or>
      exec (FuzzerInitialize_body e d) s = Inl t"
    by (auto simp: FuzzerInitialize_def split: sum.splits)
  then show ?thesis
    by (rule exec_last_history)
qed

lemma booted_run: "FuzzerInitialize all_complete ''fz1'' start_state = Inr (0, booted)"
  by (simp add: booted_def run_defs example_defs)

lemma crashed_run: "FuzzerInitialize lock_held ''fz1'' start_state = Inl crashed"
  by (simp add: crashed_def run_defs example_defs)

lemma booted_visited:
  "booted \<in> set (history (FuzzerInitialize_body all_complete ''fz1'') start_state)"
  by (simp add: booted_def run_defs example_defs)

lemma crashed_visited:
  "crashed \<in> set (history (FuzzerInitialize_body lock_held ''fz1'') start_state)"
  by (simp add: crashed_def run_defs example_defs)

subsection \<open>Stack buffers\<close>

lemma arg_path_long: "44 \<le> length d \<Longrightarrow> arg_path d = ''/tmp/'' @ take 44 d"
  by (simp add: arg_path_def snprintf_def)

lemma path_to_db_long: \<open>41 \<le> length d \<Longrightarrow> path_to_db d = ''-D"/tmp/'' @ take 41 d\<close>
  by (simp add: path_to_db_def snprintf_def)

lemma take_41_of_44:
  assumes "take 44 a = take 44 b"
  shows "take 41 a = take (41::nat) b"
proof -
  have "take 41 (take 44 a) = take 41 (take 44 b)"
    using assms by simp
  then show ?thesis by simp
qed

lemma buffers_bounded:
  "length (arg_path d) < 50" "length (path_to_db d) < 50" "length (untar d) < 100"
  by (simp_all add: arg_path_def path_to_db_def untar_def snprintf_def)

lemma arg_path_truncated:
  assumes "40 \<le> length d"
  shows "strict_prefix (arg_path d) (''/tmp/'' @ d @ ''/data'')"
proof -
  have "prefix (arg_path d) (''/tmp/'' @ d @ ''/data'')"
    unfolding arg_path_def snprintf_def by (rule take_is_prefix)
  moreover have "length (arg_path d) < length (''/tmp/'' @ d @ ''/data'')"
    using assms by (simp add: arg_path_def snprintf_def)
  ultimately show ?thesis by (auto simp: strict_prefix_def)
qed

text \<open>
  Claim C9. The two path strings and the shell command are written by \<^verbatim>\<open>snprintf\<close> into
  buffers of 50, 50 and 100 bytes, so whatever the identifier, each text with its
  terminating zero byte fits its buffer. An identifier of fewer than 40 bytes is stored
  whole. When \<^verbatim>\<open>/tmp/{identifier}/data\<close> needs more than the 50 bytes (an identifier of
  40 bytes or more), the stored path is a proper prefix of it, and no error is raised. Two distinct identifiers of at least 44 bytes that agree on
  their first 44 bytes yield the same data-directory path and the same \<^verbatim>\<open>-D\<close> argument.
\<close>

theorem stack_buffers_bounded_and_truncating:
  "length (arg_path d) < 50 \<and> length (path_to_db d) < 50 \<and> length (untar d) < 100 \<and>
   (length d < 40 \<longrightarrow> arg_path d = ''/tmp/'' @ d @ ''/data'') \<and>
   (40 \<le> length d \<longrightarrow> strict_prefix (arg_path d) (''/tmp/'' @ d @ ''/data'')) \<and>
   (a \<noteq> b \<and> 44 \<le> length a \<and> 44 \<le> length b \<and> take 44 a = take 44 b
      \<longrightarrow> arg_path a = arg_path b \<and> path_to_db a = path_to_db b)"
proof -
  have "arg_path d = ''/tmp/'' @ d @ ''/data''" if "length d < 40"
    using that by (simp add: arg_path_def snprintf_def)
  moreover
  have "arg_path a = arg_path b \<and> path_to_db a = path_to_db b"
    if "44 \<le> length a" "44 \<le> length b" "take 44 a = take 44 b"
    using that take_41_of_44 [OF that(3)] by (simp add: arg_path_long path_to_db_long)
  ultimately show ?thesis
    using buffers_bounded arg_path_truncated by blast
qed

theorem stack_buffers_bounded_and_truncating_witness:
  "long_a \<noteq> long_b \<and> 40 \<le> length long_a \<and> 44 \<le> length long_a \<and> 44 \<le> length long_b \<and>
   take 44 long_a = take 44 long_b \<and>
   arg_path long_a = ''/tmp/aaaaaaaaaaaaaaaaaaaaaaaaaaaaaaaaaaaaaaaaaaaa'' \<and>
   arg_path long_b = ''/tmp/aaaaaaaaaaaaaaaaaaaaaaaaaaaaaaaaaaaaaaaaaaaa'' \<and>
   path_to_db long_a = path_to_db long_b \<and>
   strict_prefix (arg_path long_a) (''/tmp/'' @ long_a @ ''/data'') \<and>
   length ''fz1'' < 40 \<and> arg_path ''fz1'' = ''/tmp/fz1/data''"
proof -
  have s: "length ''fz1'' < 40"
    by simp
  from stack_buffers_bounded_and_truncating [of "''fz1''" long_a long_b] s
  have f: "arg_path ''fz1'' = ''/tmp/fz1/data''"
    by simp
  have h: "long_a \<noteq> long_b" "40 \<le> length long_a" "44 \<le> length long_a"
    "44 \<le> length long_b" "take 44 long_a = take 44 long_b"
    by (simp_all add: long_a_def long_b_def)
  have v: "arg_path long_a = ''/tmp/aaaaaaaaaaaaaaaaaaaaaaaaaaaaaaaaaaaaaaaaaaaa''"
    by (simp add: long_a_def arg_path_def snprintf_def)
  note c = stack_buffers_bounded_and_truncating [of long_a long_a long_b]
  from c h have e: "arg_path long_a = arg_path long_b"
    and e2: "path_to_db long_a = path_to_db long_b"
    by blast+
  from c h have sp: "strict_prefix (arg_path long_a) (''/tmp/'' @ long_a @ ''/data'')"
    by blast
  from e v have vb: "arg_path long_b = ''/tmp/aaaaaaaaaaaaaaaaaaaaaaaaaaaaaaaaaaaaaaaaaaaa''"
    by simp
  from h v vb e2 sp s f show ?thesis by (intro conjI)
qed

subsection \<open>Return status\<close>

text \<open>
  Claim C7. Whenever \<^verbatim>\<open>FuzzerInitialize\<close> returns, it returns 0: a failure in any stage
  ends the process instead of producing a status. And the success path exists: when
  the environment lets every engine call complete, the bootstrap does return, with 0,
  for every identifier and from every starting state.
\<close>

theorem FuzzerInitialize_returns_zero:
  "(FuzzerInitialize e d s = Inr (r, t) \<longrightarrow> r = 0) \<and>
   ((\<forall>c. completes e c) \<longrightarrow> (\<exists>t. FuzzerInitialize e d s = Inr (0, t)))"
  by (simp add: run_defs split: sum.splits)

theorem FuzzerInitialize_returns_zero_witness:
  "(\<forall>c. completes all_complete c) \<and>
   FuzzerInitialize all_complete ''fz1'' start_state = Inr (0, booted) \<and>
   (\<exists>t. FuzzerInitialize all_complete ''fz1'' start_state = Inr (0, t))"
proof -
  have h: "\<forall>c. completes all_complete c"
    by (simp add: all_complete_def)
  from FuzzerInitialize_returns_zero [of all_complete "''fz1''" start_state 0 booted] h
  have "\<exists>t. FuzzerInitialize all_complete ''fz1'' start_state = Inr (0, t)"
    by blast
  with h booted_run show ?thesis by blast
qed

subsection \<open>The exit hook\<close>

text \<open>
  Claim C1, as amended. Each invocation of \<^verbatim>\<open>fuzzer_exit\<close> while \<open>username\<close> is set hands
  the string to \<^verbatim>\<open>pfree\<close> once and leaves \<open>username\<close> set: one invocation releases the
  string exactly once, \<open>n\<close> invocations release it \<open>n\<close> times. While \<open>username\<close> is
  unset the hook changes nothing.
\<close>

theorem fuzzer_exit_releases_per_call:
  "(username s = None \<longrightarrow> fuzzer_exit s = s) \<and>
   (username s = Some p \<longrightarrow>
      username (fuzzer_exit s) = Some p \<and>
      releases p (fuzzer_exit s) = releases p s + 1 \<and>
      releases p ((fuzzer_exit ^^ n) s) = releases p s + n)"
proof -
  have step: "username u = Some p \<Longrightarrow>
      username (fuzzer_exit u) = Some p \<and> releases p (fuzzer_exit u) = releases p u + 1" for u
    by (simp add: fuzzer_exit_def pfree_def logged_def releases_def)
  have iter: "username s = Some p \<Longrightarrow>
      username ((fuzzer_exit ^^ n) s) = Some p \<and>
      releases p ((fuzzer_exit ^^ n) s) = releases p s + n"
    by (induction n) (simp_all add: step)
  show ?thesis
    using step [of s] iter by (simp add: fuzzer_exit_def)
qed

theorem fuzzer_exit_releases_per_call_witness:
  "username start_state = None \<and> fuzzer_exit start_state = start_state \<and>
   username booted = Some 7 \<and> username (fuzzer_exit booted) = Some 7 \<and>
   releases 7 booted = 0 \<and> releases 7 (fuzzer_exit booted) = 1 \<and>
   releases 7 ((fuzzer_exit ^^ 3) booted) = 3"
proof -
  have u0: "username start_state = None"
    by (simp add: start_state_def)
  have u1: "username booted = Some 7"
    by (simp add: booted_def run_defs example_defs)
  have r0: "releases 7 booted = 0"
    by (simp add: booted_def run_defs example_defs releases_def)
  from fuzzer_exit_releases_per_call [of start_state 7 3] u0
  have a: "fuzzer_exit start_state = start_state"
    by blast
  from fuzzer_exit_releases_per_call [of booted 7 3] u1
  have b: "username (fuzzer_exit booted) = Some 7"
    "releases 7 (fuzzer_exit booted) = releases 7 booted + 1"
    "releases 7 ((fuzzer_exit ^^ 3) booted) = releases 7 booted + 3"
    by blast+
  from u0 a u1 b r0 show ?thesis by simp
qed

text \<open>
  Claim C1 as stated fails on the state a completed bootstrap leaves behind: a second
  invocation of the hook releases the same block a second time.
\<close>

theorem fuzzer_exit_twice_releases_twice:
  "username booted = Some 7 \<and> releases 7 booted = 0 \<and>
   releases 7 (fuzzer_exit (fuzzer_exit booted)) = 2"
  by (simp add: booted_def run_defs example_defs releases_def fuzzer_exit_def pfree_def)

text \<open>
  Claim C10. The hook is registered by the last call of the bootstrap: when the function
  returns, the registration is the final logged call, it happened once, and only the
  final state of the execution carries the new hook. When the process terminates
  inside the bootstrap, the list of hooks is the one the bootstrap started with and no
  registration was logged. So, starting with no hook registered, process termination
  after a fatal stage runs no hook and releases nothing, while process termination
  after a completed bootstrap runs \<^verbatim>\<open>fuzzer_exit\<close>.
\<close>

theorem exit_hook_registered_last:
  "(FuzzerInitialize e d s = Inr (r, t) \<longrightarrow>
      atexit_handlers t = Fuzzer_exit # atexit_handlers s \<and>
      last (since s t) = E_atexit Fuzzer_exit \<and>
      count_list (since s t) (E_atexit Fuzzer_exit) = 1 \<and>
      (atexit_handlers s = [] \<longrightarrow>
         process_exit t = fuzzer_exit t \<and>
         (\<forall>p. username t = Some p \<longrightarrow> releases p (process_exit t) = releases p t + 1))) \<and>
   (FuzzerInitialize e d s = Inl t \<longrightarrow>
      atexit_handlers t = atexit_handlers s \<and>
      E_atexit Fuzzer_exit \<notin> set (since s t) \<and>
      (atexit_handlers s = [] \<longrightarrow>
         process_exit t = t \<and> (\<forall>p. releases p (process_exit t) = releases p t))) \<and>
   (\<forall>u \<in> set (history (FuzzerInitialize_body e d) s).
      atexit_handlers u \<noteq> atexit_handlers s \<longrightarrow> FuzzerInitialize e d s = Inr (0, u))"
  apply (intro conjI impI)
      apply (auto simp add: run_defs trace_defs process_exit_def run_hook_def fuzzer_exit_def
        pfree_def releases_def split: if_splits sum.splits option.splits)[9]
  apply (simp add: run_defs trace_defs split: if_splits sum.splits option.splits)
  done

theorem exit_hook_registered_last_witness:
  "FuzzerInitialize all_complete ''fz1'' start_state = Inr (0, booted) \<and>
   atexit_handlers start_state = [] \<and>
   atexit_handlers booted = [Fuzzer_exit] \<and>
   last (since start_state booted) = E_atexit Fuzzer_exit \<and>
   process_exit booted = fuzzer_exit booted \<and>
   username booted = Some 7 \<and>
   releases 7 (process_exit booted) = releases 7 booted + 1 \<and>
   releases 7 (process_exit crashed) = releases 7 crashed \<and>
   FuzzerInitialize lock_held ''fz1'' start_state = Inl crashed \<and>
   atexit_handlers crashed = [] \<and>
   E_atexit Fuzzer_exit \<notin> set (since start_state crashed) \<and>
   process_exit crashed = crashed \<and>
   booted \<in> set (history (FuzzerInitialize_body all_complete ''fz1'') start_state) \<and>
   atexit_handlers booted \<noteq> atexit_handlers start_state"
proof -
  have h: "atexit_handlers start_state = []"
    by (simp add: start_state_def)
  have u: "username booted = Some 7"
    by (simp add: booted_def run_defs example_defs)
  from exit_hook_registered_last [of all_complete "''fz1''" start_state 0 booted] booted_run h
  have a: "atexit_handlers booted = [Fuzzer_exit]"
    "last (since start_state booted) = E_atexit Fuzzer_exit"
    "process_exit booted = fuzzer_exit booted"
    by simp_all
  from exit_hook_registered_last [of all_complete "''fz1''" start_state 0 booted] booted_run h u
  have r: "releases 7 (process_exit booted) = releases 7 booted + 1"
    by blast
  from exit_hook_registered_last [of lock_held "''fz1''" start_state 0 crashed] crashed_run h
  have b: "atexit_handlers crashed = []"
    "E_atexit Fuzzer_exit \<notin> set (since start_state crashed)"
    "process_exit crashed = crashed"
    by simp_all
  from b(3) have r': "releases 7 (process_exit crashed) = releases 7 crashed"
    by simp
  from a(1) h have c: "atexit_handlers booted \<noteq> atexit_handlers start_state"
    by simp
  from booted_run h a(1-3) u r r' crashed_run b booted_visited c show ?thesis
    by (intro conjI)
qed

subsection \<open>Order of the stages\<close>




text \<open>
  Claim C5. In every state the bootstrap passes through: once the mode has been set to
  \<open>InitProcessing\<close> and as long as one of the Backend Attach calls (base initialization,
  process-table registration, signal unmask, session initialization) has not returned,
  the mode is \<open>InitProcessing\<close>; and when the mode is \<open>NormalProcessing\<close> in a process
  that did not start in it, each Backend Attach call was logged before the call that set
  the mode to normal. The mode is set to \<open>InitProcessing\<close> inside the Global State
  Initializer (after arena initialization, before the configuration files) and is
  \<open>NormalProcessing\<close> when the function returns.
\<close>

theorem processing_mode_normal_only_after_attach:
  "(\<forall>u \<in> set (history (FuzzerInitialize_body e d) s).
      (E_SetProcessingMode InitProcessing \<in> set (since s u) \<and>
       \<not> set (backend_attach (username u)) \<subseteq> set (since s u)
         \<longrightarrow> Mode u = InitProcessing) \<and>
      (Mode s \<noteq> NormalProcessing \<and> Mode u = NormalProcessing
         \<longrightarrow> (\<forall>c \<in> set (backend_attach (username u)).
                position c (since s u)
                  < position (E_SetProcessingMode NormalProcessing) (since s u)) \<and>
             position (E_SetProcessingMode NormalProcessing) (since s u) < length (since s u))) \<and>
   (FuzzerInitialize e d s = Inr (r, t) \<longrightarrow>
      Mode t = NormalProcessing \<and>
      position E_MemoryContextInit (since s t)
        < position (E_SetProcessingMode InitProcessing) (since s t) \<and>
      position (E_SetProcessingMode InitProcessing) (since s t)
        < position (E_SelectConfigFiles (arg_path d) (progname t)) (since s t) \<and>
      position (E_SelectConfigFiles (arg_path d) (progname t)) (since s t)
        < position (E_SetProcessingMode NormalProcessing) (since s t))"
  apply (intro conjI impI)
    apply (simp add: run_defs trace_defs backend_attach_def split: if_splits sum.splits option.splits)
    apply (auto simp add: run_defs trace_defs backend_attach_def split: if_splits sum.splits option.splits)
  done

theorem processing_mode_normal_only_after_attach_witness:
  "crashed \<in> set (history (FuzzerInitialize_body lock_held ''fz1'') start_state) \<and>
   E_SetProcessingMode InitProcessing \<in> set (since start_state crashed) \<and>
   \<not> set (backend_attach (username crashed)) \<subseteq> set (since start_state crashed) \<and>
   Mode crashed = InitProcessing \<and>
   booted \<in> set (history (FuzzerInitialize_body all_complete ''fz1'') start_state) \<and>
   Mode start_state \<noteq> NormalProcessing \<and>
   Mode booted = NormalProcessing \<and>
   FuzzerInitialize all_complete ''fz1'' start_state = Inr (0, booted) \<and>
   position (E_InitPostgres ''dbfuzz'' InvalidOid (Some 7) InvalidOid None False)
       (since start_state booted)
     < position (E_SetProcessingMode NormalProcessing) (since start_state booted)"
proof -
  have u: "E_InitPostgres ''dbfuzz'' InvalidOid (Some 7) InvalidOid None False
      \<in> set (backend_attach (username booted))"
    by (simp add: booted_def run_defs example_defs backend_attach_def)
  have h1: "E_SetProcessingMode InitProcessing \<in> set (since start_state crashed)"
    by (simp add: crashed_def run_defs example_defs trace_defs)
  have h2: "\<not> set (backend_attach (username crashed)) \<subseteq> set (since start_state crashed)"
    by (simp add: crashed_def run_defs example_defs trace_defs backend_attach_def)
  have h3: "Mode start_state \<noteq> NormalProcessing"
    by (simp add: start_state_def)
  from processing_mode_normal_only_after_attach [where e = lock_held and d = "''fz1''"
      and s = start_state] crashed_visited h1 h2
  have a: "Mode crashed = InitProcessing"
    by blast
  from processing_mode_normal_only_after_attach [where e = all_complete and d = "''fz1''"
      and s = start_state and r = 0 and t = booted] booted_run
  have b: "Mode booted = NormalProcessing"
    by blast
  from processing_mode_normal_only_after_attach [where e = all_complete and d = "''fz1''"
      and s = start_state] booted_visited h3 b
  have "\<forall>c \<in> set (backend_attach (username booted)).
      position c (since start_state booted)
        < position (E_SetProcessingMode NormalProcessing) (since start_state booted)"
    by blast
  with u have c: "position (E_InitPostgres ''dbfuzz'' InvalidOid (Some 7) InvalidOid None False)
        (since start_state booted)
      < position (E_SetProcessingMode NormalProcessing) (since start_state booted)"
    by blast
  from crashed_visited h1 h2 a booted_visited h3 b booted_run c show ?thesis
    by (intro conjI)
qed

text \<open>
  Claim C6. When the function returns, the start time holds the value the clock gave,
  \<^verbatim>\<open>GetCurrentTimestamp\<close> was called exactly once, every call of the Data Directory
  Binder (directory check, change of directory, lock file, control file, backend
  slots) stands in the log strictly before it, and only the registration of the exit
  hook follows it. In every state the bootstrap passes through, the start time is the
  captured value once the capture is logged (and the binder has then completed), and
  the value the process started with before.
\<close>

theorem start_time_captured_once_after_binder:
  "(FuzzerInitialize e d s = Inr (r, t) \<longrightarrow>
      PgStartTime t = clock e \<and>
      count_list (since s t) E_GetCurrentTimestamp = 1 \<and>
      (\<forall>c \<in> set data_directory_binder.
         position c (since s t) < position E_GetCurrentTimestamp (since s t)) \<and>
      drop (position E_GetCurrentTimestamp (since s t)) (since s t) =
        [E_GetCurrentTimestamp, E_atexit Fuzzer_exit]) \<and>
   (\<forall>u \<in> set (history (FuzzerInitialize_body e d) s).
      (E_GetCurrentTimestamp \<in> set (since s u)
         \<longrightarrow> PgStartTime u = clock e \<and> set data_directory_binder \<subseteq> set (since s u)) \<and>
      (E_GetCurrentTimestamp \<notin> set (since s u) \<longrightarrow> PgStartTime u = PgStartTime s))"
  apply (intro conjI impI)
      apply (auto simp add: run_defs trace_defs data_directory_binder_def split: if_splits sum.splits option.splits)[4]
    apply (simp add: run_defs trace_defs data_directory_binder_def split: if_splits sum.splits option.splits)
  done

theorem start_time_captured_once_after_binder_witness:
  "FuzzerInitialize all_complete ''fz1'' start_state = Inr (0, booted) \<and>
   PgStartTime booted = 1000 \<and>
   E_LocalProcessControlFile False \<in> set data_directory_binder \<and>
   position (E_LocalProcessControlFile False) (since start_state booted)
     < position E_GetCurrentTimestamp (since start_state booted) \<and>
   booted \<in> set (history (FuzzerInitialize_body all_complete ''fz1'') start_state) \<and>
   E_GetCurrentTimestamp \<in> set (since start_state booted) \<and>
   set data_directory_binder \<subseteq> set (since start_state booted) \<and>
   crashed \<in> set (history (FuzzerInitialize_body lock_held ''fz1'') start_state) \<and>
   E_GetCurrentTimestamp \<notin> set (since start_state crashed) \<and>
   PgStartTime crashed = PgStartTime start_state"
proof -
  have k: "clock all_complete = 1000"
    by (simp add: all_complete_def)
  have m: "E_LocalProcessControlFile False \<in> set data_directory_binder"
    by (simp add: data_directory_binder_def)
  have h1: "E_GetCurrentTimestamp \<in> set (since start_state booted)"
    by (simp add: booted_def run_defs example_defs trace_defs)
  have h2: "E_GetCurrentTimestamp \<notin> set (since start_state crashed)"
    by (simp add: crashed_def run_defs example_defs trace_defs)
  from start_time_captured_once_after_binder [where e = all_complete and d = "''fz1''"
      and s = start_state and r = 0 and t = booted] booted_run
  have a: "PgStartTime booted = clock all_complete"
    "\<forall>c \<in> set data_directory_binder.
       position c (since start_state booted) < position E_GetCurrentTimestamp (since start_state booted)"
    by blast+
  from a(2) m have a2: "position (E_LocalProcessControlFile False) (since start_state booted)
      < position E_GetCurrentTimestamp (since start_state booted)"
    by blast
  from a(1) k have a1: "PgStartTime booted = 1000"
    by simp
  from start_time_captured_once_after_binder [where e = all_complete and d = "''fz1''"
      and s = start_state] booted_visited h1
  have b: "set data_directory_binder \<subseteq> set (since start_state booted)"
    by blast
  from start_time_captured_once_after_binder [where e = lock_held and d = "''fz1''"
      and s = start_state] crashed_visited h2
  have c: "PgStartTime crashed = PgStartTime start_state"
    by blast
  from booted_run a1 m a2 booted_visited h1 b crashed_visited h2 c show ?thesis
    by (intro conjI)
qed

subsection \<open>Memory arenas\<close>

text \<open>
  Claim C4. When the function returns, \<open>row_description_context\<close> points to an arena
  named \<^verbatim>\<open>RowDescriptionContext\<close> whose parent is the top-level arena, as is the parent of
  the message arena; the two are different arenas, so selecting one as current does not
  select the other. The buffer \<open>row_description_buf\<close> points to the one chunk of 1024
  bytes allocated in the row-description arena and has length zero. In the log the
  creation of the arena is followed at once by its selection and the initialization of
  the buffer.
\<close>

theorem row_description_arena_ready:
  "FuzzerInitialize e d s = Inr (r, t) \<longrightarrow>
      TopMemoryContext t = Some (length (contexts s)) \<and>
      MessageContext t = Some (length (contexts s) + 1) \<and>
      row_description_context t = Some (length (contexts s) + 2) \<and>
      length (contexts t) = length (contexts s) + 3 \<and>
      parent (contexts t ! (length (contexts s) + 1)) = TopMemoryContext t \<and>
      parent (contexts t ! (length (contexts s) + 2)) = TopMemoryContext t \<and>
      name (contexts t ! (length (contexts s) + 2)) = ''RowDescriptionContext'' \<and>
      chunks (contexts t ! (length (contexts s) + 2)) = [1024] \<and>
      row_description_buf t =
        \<lparr>data = Some (length (contexts s) + 2, 0), len = 0, maxlen = 1024, cursor = 0\<rparr> \<and>
      CurrentMemoryContext (MemoryContextSwitchTo (row_description_context t) t) =
        row_description_context t \<and>
      CurrentMemoryContext (MemoryContextSwitchTo (row_description_context t) t) \<noteq>
        MessageContext t \<and>
      CurrentMemoryContext (MemoryContextSwitchTo (MessageContext t) t) \<noteq>
        row_description_context t \<and>
      take 3 (drop (position (E_AllocSetContextCreate (TopMemoryContext t)
                      ''RowDescriptionContext'' ALLOCSET_DEFAULT_SIZES) (since s t)) (since s t)) =
        [E_AllocSetContextCreate (TopMemoryContext t) ''RowDescriptionContext''
           ALLOCSET_DEFAULT_SIZES,
         E_MemoryContextSwitchTo (row_description_context t), E_initStringInfo]"
  by (auto simp add: run_defs trace_defs nth_append split: if_splits sum.splits option.splits)

theorem row_description_arena_ready_witness:
  "FuzzerInitialize all_complete ''fz1'' start_state = Inr (0, booted) \<and>
   TopMemoryContext booted = Some 0 \<and>
   MessageContext booted = Some 1 \<and>
   row_description_context booted = Some 2 \<and>
   parent (contexts booted ! 2) = Some 0 \<and>
   name (contexts booted ! 2) = ''RowDescriptionContext'' \<and>
   chunks (contexts booted ! 2) = [1024] \<and>
   row_description_buf booted = \<lparr>data = Some (2, 0), len = 0, maxlen = 1024, cursor = 0\<rparr>"
proof -
  have n: "length (contexts start_state) = 0"
    by (simp add: start_state_def)
  from row_description_arena_ready [where e = all_complete and d = "''fz1''"
      and s = start_state and r = 0 and t = booted] booted_run
  show ?thesis
    by (simp add: n numeral_2_eq_2)
qed

text \<open>
  Claim C8. When the function returns, the current arena is the top-level arena, which
  exists and is not the row-description arena. The log ends with the selection of the
  row-description arena, the initialization of its buffer, the switch back to the
  top-level arena, the time stamp and the registration of the exit hook: no call after
  the switch back selects an arena. In every state the bootstrap passes through after
  the switch back, the current arena is the top-level arena.
\<close>

theorem top_arena_current_on_return:
  "(FuzzerInitialize e d s = Inr (r, t) \<longrightarrow>
      CurrentMemoryContext t = TopMemoryContext t \<and>
      TopMemoryContext t \<noteq> None \<and>
      row_description_context t \<noteq> TopMemoryContext t \<and>
      drop (position (E_MemoryContextSwitchTo (row_description_context t)) (since s t)) (since s t) =
        [E_MemoryContextSwitchTo (row_description_context t), E_initStringInfo,
         E_MemoryContextSwitchTo (TopMemoryContext t), E_GetCurrentTimestamp,
         E_atexit Fuzzer_exit]) \<and>
   (\<forall>u \<in> set (history (FuzzerInitialize_body e d) s).
      E_MemoryContextSwitchTo (TopMemoryContext u) \<in> set (since s u) \<longrightarrow>
      CurrentMemoryContext u = TopMemoryContext u)"
  apply (intro conjI impI)
      apply (auto simp add: run_defs trace_defs split: if_splits sum.splits option.splits)[4]
  apply (simp add: run_defs trace_defs split: if_splits sum.splits option.splits)
  done

theorem top_arena_current_on_return_witness:
  "FuzzerInitialize all_complete ''fz1'' start_state = Inr (0, booted) \<and>
   TopMemoryContext booted = Some 0 \<and>
   CurrentMemoryContext booted = Some 0 \<and>
   row_description_context booted \<noteq> Some 0 \<and>
   booted \<in> set (history (FuzzerInitialize_body all_complete ''fz1'') start_state) \<and>
   E_MemoryContextSwitchTo (TopMemoryContext booted) \<in> set (since start_state booted)"
proof -
  have k: "TopMemoryContext booted = Some 0"
    by (simp add: booted_def run_defs example_defs)
  have h: "E_MemoryContextSwitchTo (TopMemoryContext booted) \<in> set (since start_state booted)"
    by (simp add: booted_def run_defs example_defs trace_defs)
  from top_arena_current_on_return [where e = all_complete and d = "''fz1''"
      and s = start_state and r = 0 and t = booted] booted_run
  have a: "CurrentMemoryContext booted = TopMemoryContext booted"
    "row_description_context booted \<noteq> TopMemoryContext booted"
    by blast+
  from top_arena_current_on_return [where e = all_complete and d = "''fz1''"
      and s = start_state] booted_visited h
  have "CurrentMemoryContext booted = TopMemoryContext booted"
    by blast
  with a k have b: "CurrentMemoryContext booted = Some 0" "row_description_context booted \<noteq> Some 0"
    by simp_all
  from booted_run k b booted_visited h show ?thesis
    by (intro conjI)
qed

subsection \<open>The Dataset Provisioner\<close>

lemmas shell_defs = provision_def sh_def tokens_def add_char_def untar_def snprintf_def
  simple_command_def rm_rf_def mkdir_def tar_xvf_def resolve_def dirname_def wipe_def
  unpack_def example_fs_def example_files_def example_reader_def

text \<open>
  Claim C3. The claim holds of the wipe and of the recreation, and the code breaks it in
  the extraction: for the identifier \<^verbatim>\<open>aaaaaaaaaaaaaa\<close> of 14 bytes, lines 53 and 54 still
  build the data-directory path and the \<^verbatim>\<open>-D\<close> argument whole, while the command of line
  55 no longer fits its 100 bytes and its last word is cut to \<^verbatim>\<open>/tmp/aaaaaaaaaaa\<close>. The
  step wipes and recreates \<^verbatim>\<open>/tmp/aaaaaaaaaaaaaa\<close>, fails, and unpacks nothing into the
  directory the engine is then pointed at.
\<close>

theorem provision_long_identifier_misdirected:
  \<open>arg_path ''aaaaaaaaaaaaaa'' = ''/tmp/aaaaaaaaaaaaaa/data'' \<and>
   path_to_db ''aaaaaaaaaaaaaa'' = ''-D"/tmp/aaaaaaaaaaaaaa/data"'' \<and>
   untar ''aaaaaaaaaaaaaa'' =
     ''rm -rf /tmp/aaaaaaaaaaaaaa && mkdir /tmp/aaaaaaaaaaaaaa && tar -xvf data.tar.gz -C /tmp/aaaaaaaaaaa'' \<and>
   \<not> fst (provision example_reader ''aaaaaaaaaaaaaa'' example_fs) \<and>
   files (snd (provision example_reader ''aaaaaaaaaaaaaa'' example_fs)) ''/tmp/aaaaaaaaaaaaaa''
     = Some Dir \<and>
   files (snd (provision example_reader ''aaaaaaaaaaaaaa'' example_fs))
     ''/tmp/aaaaaaaaaaaaaa/data'' = None\<close>
  by (simp add: shell_defs arg_path_def path_to_db_def)

text \<open>
  On identifiers whose command fits the buffer the step does what the claim says. For
  an identifier of at most 13 bytes that the shell reads as a plain word, with
  \<^verbatim>\<open>/tmp\<close> a directory, \<^verbatim>\<open>data.tar.gz\<close> a readable archive in the working directory and
  the archive neither the target nor below it, the command succeeds and leaves below
  \<^verbatim>\<open>/tmp/{identifier}\<close> a fresh directory holding the members of the archive and nothing
  of what was there before; running it again succeeds and gives the same file system.
\<close>

lemma add_char_word: "CHR '' '' \<notin> set w \<Longrightarrow> foldr add_char w (x # r) = (w @ x) # r"
  by (induction w) (auto simp: add_char_def)

lemma shell_special_has: "CHR '' '' \<in> set shell_special" "CHR ''/'' \<in> set shell_special"
  by (simp_all add: shell_special_def)

lemma safe_identifier_plain:
  assumes "safe_identifier d"
  shows "d \<noteq> []" "CHR '' '' \<notin> set d" "CHR ''/'' \<notin> set d"
  using assms shell_special_has by (auto simp: safe_identifier_def list_all_iff)

lemma untar_short:
  "length d \<le> 13 \<Longrightarrow> untar d = ''rm -rf /tmp/'' @ d @ '' && mkdir /tmp/'' @ d @
      '' && tar -xvf data.tar.gz -C /tmp/'' @ d"
  by (simp add: untar_def snprintf_def)

lemma tokens_untar:
  assumes "safe_identifier d" "length d \<le> 13"
  shows "tokens (untar d) =
    [''rm'', ''-rf'', ''/tmp/'' @ d, ''&&'', ''mkdir'', ''/tmp/'' @ d, ''&&'',
     ''tar'', ''-xvf'', ''data.tar.gz'', ''-C'', ''/tmp/'' @ d]"
  using safe_identifier_plain(1,2) [OF assms(1)]
  by (simp add: untar_short [OF assms(2)] tokens_def add_char_word add_char_def)

lemma commands_untar:
  assumes "safe_identifier d" "length d \<le> 13" "T = ''/tmp/'' @ d"
  shows "and_list (tokens (untar d)) =
    [[''rm'', ''-rf'', T], [''mkdir'', T], [''tar'', ''-xvf'', ''data.tar.gz'', ''-C'', T]]"
  by (simp add: tokens_untar [OF assms(1,2)] assms(3))

lemma dirname_tmp:
  assumes "CHR ''/'' \<notin> set d"
  shows "dirname (''/tmp/'' @ d) = ''/tmp''"
proof -
  have "\<And>x. x \<in> set (rev d) \<Longrightarrow> x \<noteq> CHR ''/''"
    using assms by auto
  then have "dropWhile (\<lambda>c. c \<noteq> CHR ''/'') (rev d @ ''/pmt/'') =
      dropWhile (\<lambda>c. c \<noteq> CHR ''/'') ''/pmt/''"
    by (rule dropWhile_append2)
  then have "dropWhile (\<lambda>c. c \<noteq> CHR ''/'') (rev d @ ''/pmt/'') = ''/pmt/''"
    by simp
  then show ?thesis
    by (simp add: dirname_def)
qed

lemma unpack_outside: "\<not> prefix (p @ ''/'') q \<Longrightarrow> unpack members p f q = f q"
  unfolding unpack_def
  by (induction members arbitrary: f) (auto simp: prefix_def)

lemma wipe_outside: "q \<noteq> p \<Longrightarrow> \<not> prefix (p @ ''/'') q \<Longrightarrow> wipe p f q = f q"
  by (simp add: wipe_def)

lemma wipe_self: "wipe p f p = None"
  by (simp add: wipe_def)

lemma wipe_unpack: "wipe p (unpack members p ((wipe p f)(p \<mapsto> Dir))) = wipe p f"
proof (rule ext)
  fix q
  show "wipe p (unpack members p ((wipe p f)(p \<mapsto> Dir))) q = wipe p f q"
  proof (cases "q = p \<or> prefix (p @ ''/'') q")
    case True
    then show ?thesis by (simp add: wipe_def)
  next
    case False
    then show ?thesis by (simp add: wipe_def unpack_outside)
  qed
qed

lemma target_facts:
  assumes "safe_identifier d" "T = ''/tmp/'' @ d"
  shows "resolve fs T = T" "dirname T = ''/tmp''" "''/tmp'' \<noteq> T" "\<not> prefix (T @ ''/'') ''/tmp''"
    "resolve fs ''data.tar.gz'' = cwd fs @ ''/data.tar.gz''"
proof -
  note plain = safe_identifier_plain [OF assms(1)]
  show "resolve fs T = T" by (simp add: assms(2) resolve_def)
  show "dirname T = ''/tmp''" unfolding assms(2) by (rule dirname_tmp [OF plain(3)])
  show "''/tmp'' \<noteq> T" by (simp add: assms(2))
  show "\<not> prefix (T @ ''/'') ''/tmp''" by (simp add: assms(2) prefix_def)
  show "resolve fs ''data.tar.gz'' = cwd fs @ ''/data.tar.gz''" by (simp add: resolve_def)
qed

lemma provision_result:
  assumes d: "safe_identifier d" "length d \<le> 13"
    and T: "T = ''/tmp/'' @ d"
    and tmp: "files fs ''/tmp'' = Some Dir"
    and archive: "files fs (cwd fs @ ''/data.tar.gz'') = Some (File bytes)"
    and readable: "reader bytes = Some members"
    and apart: "cwd fs @ ''/data.tar.gz'' \<noteq> T"
    and outside: "\<not> prefix (T @ ''/'') (cwd fs @ ''/data.tar.gz'')"
  shows "provision reader d fs =
    (True, fs\<lparr>files := unpack members T ((wipe T (files fs))(T \<mapsto> Dir))\<rparr>)"
proof -
  note tf = target_facts [OF d(1) T]
  have r1: "simple_command reader [''rm'', ''-rf'', T] fs = (True, fs\<lparr>files := wipe T (files fs)\<rparr>)"
    by (simp add: simple_command_def rm_rf_def tf(1))
  have r2: "simple_command reader [''mkdir'', T] (fs\<lparr>files := wipe T (files fs)\<rparr>)
      = (True, fs\<lparr>files := (wipe T (files fs))(T \<mapsto> Dir)\<rparr>)"
    using tmp tf(3,4)
    by (simp add: simple_command_def mkdir_def tf(1) tf(2) wipe_self wipe_outside)
  have r3: "simple_command reader [''tar'', ''-xvf'', ''data.tar.gz'', ''-C'', T]
        (fs\<lparr>files := (wipe T (files fs))(T \<mapsto> Dir)\<rparr>)
      = (True, fs\<lparr>files := unpack members T ((wipe T (files fs))(T \<mapsto> Dir))\<rparr>)"
    using archive readable outside apart
    by (simp add: simple_command_def tar_xvf_def tf(1) tf(5) wipe_outside)
  have "provision reader d fs = and_chain reader [[''rm'', ''-rf'', T], [''mkdir'', T],
     [''tar'', ''-xvf'', ''data.tar.gz'', ''-C'', T]] fs"
    by (simp only: provision_def sh_def commands_untar [OF d T])
  also have "\<dots> = (True, fs\<lparr>files := unpack members T ((wipe T (files fs))(T \<mapsto> Dir))\<rparr>)"
    by (simp only: and_chain.simps r1 r2 r3 prod.case bool.case)
  finally show ?thesis .
qed

lemma provision_short_identifier_idempotent:
  assumes d: "safe_identifier d" "length d \<le> 13"
    and tmp: "files fs ''/tmp'' = Some Dir"
    and archive: "files fs (cwd fs @ ''/data.tar.gz'') = Some (File bytes)"
    and readable: "reader bytes = Some members"
    and apart: "cwd fs @ ''/data.tar.gz'' \<noteq> ''/tmp/'' @ d"
    and outside: "\<not> prefix (''/tmp/'' @ d @ ''/'') (cwd fs @ ''/data.tar.gz'')"
  shows "provision reader d fs =
      (True, fs\<lparr>files := unpack members (''/tmp/'' @ d)
                 ((wipe (''/tmp/'' @ d) (files fs))(''/tmp/'' @ d \<mapsto> Dir))\<rparr>) \<and>
    provision reader d (snd (provision reader d fs)) = provision reader d fs"
proof -
  define T where "T = ''/tmp/'' @ d"
  define fs3 where "fs3 = fs\<lparr>files := unpack members T ((wipe T (files fs))(T \<mapsto> Dir))\<rparr>"
  note tf = target_facts [OF d(1) T_def]
  have ap: "cwd fs @ ''/data.tar.gz'' \<noteq> T"
    using apart by (simp add: T_def)
  have out: "\<not> prefix (T @ ''/'') (cwd fs @ ''/data.tar.gz'')"
    using outside by (simp add: T_def)
  have first: "provision reader d fs = (True, fs3)"
    unfolding fs3_def
    by (rule provision_result [where reader = reader and bytes = bytes,
          OF d T_def tmp archive readable ap out])
  have tmp3: "files fs3 ''/tmp'' = Some Dir"
    using tmp tf(3,4) by (simp add: fs3_def unpack_outside wipe_outside)
  have archive3: "files fs3 (cwd fs3 @ ''/data.tar.gz'') = Some (File bytes)"
    using archive out ap by (simp add: fs3_def unpack_outside wipe_outside)
  have ap3: "cwd fs3 @ ''/data.tar.gz'' \<noteq> T"
    using ap by (simp add: fs3_def)
  have out3: "\<not> prefix (T @ ''/'') (cwd fs3 @ ''/data.tar.gz'')"
    using out by (simp add: fs3_def)
  have "provision reader d fs3 =
      (True, fs3\<lparr>files := unpack members T ((wipe T (files fs3))(T \<mapsto> Dir))\<rparr>)"
    by (rule provision_result [where reader = reader and bytes = bytes,
          OF d T_def tmp3 archive3 readable ap3 out3])
  also have "\<dots> = (True, fs3)"
    by (simp add: fs3_def wipe_unpack)
  finally have second: "provision reader d fs3 = (True, fs3)" .
  show ?thesis
    using first second by (simp add: fs3_def T_def)
qed

lemma provision_short_identifier_example:
  "safe_identifier ''fz-1'' \<and>
   fst (provision example_reader ''fz-1'' example_fs) \<and>
   files (snd (provision example_reader ''fz-1'' example_fs)) ''/tmp/fz-1/data/PG_VERSION''
     = Some (File ''12'') \<and>
   provision example_reader ''fz-1'' (snd (provision example_reader ''fz-1'' example_fs))
     = provision example_reader ''fz-1'' example_fs"
proof -
  have h: "safe_identifier ''fz-1''" "length ''fz-1'' \<le> 13"
    "files example_fs ''/tmp'' = Some Dir"
    "files example_fs (cwd example_fs @ ''/data.tar.gz'') = Some (File ''snapshot'')"
    "example_reader ''snapshot'' = Some [(''data'', Dir), (''data/PG_VERSION'', File ''12'')]"
    "cwd example_fs @ ''/data.tar.gz'' \<noteq> ''/tmp/'' @ ''fz-1''"
    "\<not> prefix (''/tmp/'' @ ''fz-1'' @ ''/'') (cwd example_fs @ ''/data.tar.gz'')"
    by (simp_all add: safe_identifier_def shell_special_def example_fs_def example_files_def
        example_reader_def)
  note t = provision_short_identifier_idempotent [where reader = example_reader
      and bytes = "''snapshot''", OF h]
  from t have a: "fst (provision example_reader ''fz-1'' example_fs)"
    by simp
  from t have b: "files (snd (provision example_reader ''fz-1'' example_fs))
      ''/tmp/fz-1/data/PG_VERSION'' = Some (File ''12'')"
    by (simp add: unpack_def)
  from t have c: "provision example_reader ''fz-1''
      (snd (provision example_reader ''fz-1'' example_fs))
      = provision example_reader ''fz-1'' example_fs"
    by blast
  from h(1) a b c show ?thesis
    by (intro conjI)
qed

end
